theory Spec2Isabelle
  imports Complex_Main "HOL-Library.Sublist"
begin

section \<open>Glucose analysis of the diabetes prediction app\<close>

text \<open>
  The page script \<^verbatim>\<open>app.py\<close> compares a glucose reading against integer
  thresholds. The reading comes from a slider (an integer) but the function
  \<^verbatim>\<open>analyze_glucose_level\<close> accepts any number, so readings are modelled as
  \<^typ>\<open>real\<close>. Python strings are modelled as \<^typ>\<open>string\<close>; a character
  outside ASCII is written as the bytes of its UTF-8 encoding.
\<close>

text \<open>
  \<^verbatim>\<open>analyze_glucose_level(glucose_value)\<close>: an \<^verbatim>\<open>if/elif\<close> chain over the
  thresholds 100, 126, 140 and 200, returning \<^verbatim>\<open>(category, color, risk)\<close>.
\<close>

definition analyze_glucose_level :: "real \<Rightarrow> string \<times> string \<times> string" where
  "analyze_glucose_level glucose_value =
     (if glucose_value < 100 then (''Normal (Puasa)'', ''green'', ''Rendah'')
      else if glucose_value < 126 then (''Prediabetes (Puasa)'', ''orange'', ''Sedang'')
      else if glucose_value < 140 then (''Diabetes (Puasa)'', ''red'', ''Tinggi'')
      else if glucose_value < 200 then (''Prediabetes (2 jam)'', ''orange'', ''Sedang'')
      else (''Diabetes (2 jam)'', ''red'', ''Tinggi''))"

section \<open>Sidebar input\<close>

text \<open>
  The eight \<^verbatim>\<open>st.slider\<close> controls of \<^verbatim>\<open>get_user_input\<close>, named by their
  widget keys. A slider called with integer bounds returns an integer, one called with
  float bounds a float. The value a slider returns is produced by the page framework,
  so it is an input of the model. Keeping that value between the bounds of the call is
  the framework's part; the script itself never compares a reading with a bound.
\<close>

record slider_values =
  pregnancies_input :: int
  glucose_input :: int
  blood_pressure_input :: int
  skin_thickness_input :: int
  insulin_input :: int
  bmi_input :: real
  diabetes_pedigree_input :: real
  age_input :: int

text \<open>
  \<^verbatim>\<open>pd.DataFrame(data, index=[0])\<close>: a frame of one row. Its columns keep the
  insertion order of the dictionary \<^verbatim>\<open>data\<close>, so the frame is an association
  list from column name to the cell of row 0.
\<close>

type_synonym dataframe = "(string \<times> real) list"



text \<open>
  The live feedback under the glucose slider: \<^verbatim>\<open>(glucose_status, glucose_class)\<close>,
  an \<^verbatim>\<open>if/elif\<close> chain over 140 and 200. The status strings begin with a
  coloured circle (U+1F7E2, U+1F7E1, U+1F534).
\<close>

definition glucose_status :: "int \<Rightarrow> string \<times> string" where
  "glucose_status glucose =
     (if glucose < 140
      then ([CHR 0xF0, CHR 0x9F, CHR 0x9F, CHR 0xA2] @ '' Normal'', ''glukosa-normal'')
      else if glucose < 200
      then ([CHR 0xF0, CHR 0x9F, CHR 0x9F, CHR 0xA1] @ '' Prediabetes'', ''glukosa-prediabetes'')
      else ([CHR 0xF0, CHR 0x9F, CHR 0x94, CHR 0xB4] @ '' Diabetes'', ''glukosa-diabetes''))"

text \<open>The caption under the BMI slider (U+26AA for the first band).\<close>

definition bmi_status :: "real \<Rightarrow> string" where
  "bmi_status bmi =
     (if bmi < 185 / 10 then [CHR 0xE2, CHR 0x9A, CHR 0xAA] @ '' Kurus''
      else if bmi < 25 then [CHR 0xF0, CHR 0x9F, CHR 0x9F, CHR 0xA2] @ '' Normal''
      else if bmi < 30 then [CHR 0xF0, CHR 0x9F, CHR 0x9F, CHR 0xA1] @ '' Gemuk''
      else [CHR 0xF0, CHR 0x9F, CHR 0x94, CHR 0xB4] @ '' Obesitas'')"

text \<open>
  \<^verbatim>\<open>get_user_input()\<close> returns the frame built from the dictionary of the eight
  readings.
\<close>

definition get_user_input :: "slider_values \<Rightarrow> dataframe" where
  "get_user_input w =
     [(''Pregnancies'', of_int (pregnancies_input w)),
      (''Glucose'', of_int (glucose_input w)),
      (''BloodPressure'', of_int (blood_pressure_input w)),
      (''SkinThickness'', of_int (skin_thickness_input w)),
      (''Insulin'', of_int (insulin_input w)),
      (''BMI'', bmi_input w),
      (''DiabetesPedigreeFunction'', diabetes_pedigree_input w),
      (''Age'', of_int (age_input w))]"

section \<open>Exceptions and the external artifacts\<close>

datatype py_exception = FileNotFoundError | KeyError | IndexError | OtherException string

text \<open>\<^verbatim>\<open>xs[0]\<close> raises on an empty sequence.\<close>

definition first_item :: "'a list \<Rightarrow> py_exception + 'a" where
  "first_item xs = (case xs of [] \<Rightarrow> Inl IndexError | x # _ \<Rightarrow> Inr x)"

text \<open>\<^verbatim>\<open>df[col].iloc[0]\<close> raises when the frame has no such column.\<close>

definition df_get :: "dataframe \<Rightarrow> string \<Rightarrow> py_exception + real" where
  "df_get df col = (case map_of df col of None \<Rightarrow> Inl KeyError | Some v \<Rightarrow> Inr v)"

text \<open>
  The classifier and the scaler are unpickled objects of which the script calls three
  methods. Each call may raise. The scaler takes the frame and returns a
  two-dimensional array (one row per row of the frame); the classifier takes that
  array and returns one label per row, respectively one row of class probabilities per
  row.
\<close>

record model_artifact =
  predict :: "real list list \<Rightarrow> py_exception + int list"
  predict_proba :: "real list list \<Rightarrow> py_exception + real list list"

record scaler_artifact =
  transform :: "dataframe \<Rightarrow> py_exception + real list list"

text \<open>
  What \<^verbatim>\<open>pickle.load\<close> gives for each of the two files: an exception, or the
  unpickled object, which may be \<^verbatim>\<open>None\<close>.
\<close>

record artifact_files =
  best_diabetes_model_pkl :: "py_exception + model_artifact option"
  scaler_pkl :: "py_exception + scaler_artifact option"

text \<open>
  \<^verbatim>\<open>load_models()\<close>: both handlers of the \<^verbatim>\<open>try\<close> return
  \<^verbatim>\<open>(None, None)\<close>; the scaler file is opened only after the model was loaded.
\<close>

definition load_models :: "artifact_files \<Rightarrow> model_artifact option \<times> scaler_artifact option" where
  "load_models files =
     (case best_diabetes_model_pkl files of
        Inl e \<Rightarrow> (None, None)
      | Inr model \<Rightarrow>
          (case scaler_pkl files of
             Inl e \<Rightarrow> (None, None)
           | Inr scaler \<Rightarrow> (model, scaler)))"

text \<open>
  \<^verbatim>\<open>make_prediction(model, scaler, input_df)\<close>: every exception inside the
  \<^verbatim>\<open>try\<close> is reported on the page and turned into \<^verbatim>\<open>(None, None)\<close>, here
  \<open>None\<close>.
\<close>

definition make_prediction ::
  "model_artifact \<Rightarrow> scaler_artifact \<Rightarrow> dataframe \<Rightarrow> (int \<times> real list) option" where
  "make_prediction model scaler input_df =
     (case transform scaler input_df of
        Inl e \<Rightarrow> None
      | Inr input_scaled \<Rightarrow>
          (case predict model input_scaled of
             Inl e \<Rightarrow> None
           | Inr prediction \<Rightarrow>
               (case predict_proba model input_scaled of
                  Inl e \<Rightarrow> None
                | Inr prediction_proba \<Rightarrow>
                    (case first_item prediction of
                       Inl e \<Rightarrow> None
                     | Inr label \<Rightarrow>
                         (case first_item prediction_proba of
                            Inl e \<Rightarrow> None
                          | Inr proba \<Rightarrow> Some (label, proba))))))"

section \<open>Session state and the page script\<close>

text \<open>The dictionary stored as \<^verbatim>\<open>current_prediction\<close> and appended to the history.\<close>

record history_entry =
  data :: dataframe
  prediction :: int
  probabilities :: "real list"
  timestamp :: string
  glucose :: real
  glucose_category :: string

record session_state =
  prediction_history :: "history_entry list"
  current_prediction :: "history_entry option"

definition init_session :: session_state where
  "init_session = \<lparr>prediction_history = [], current_prediction = None\<rparr>"

text \<open>
  The clear button is drawn only while the history is not empty. A click empties the
  history and asks for a rerun, which ends the current run of the script. The result is
  the new state and whether a rerun was requested.
\<close>

definition clear_section :: "bool \<Rightarrow> session_state \<Rightarrow> session_state \<times> bool" where
  "clear_section clear_button st =
     (if prediction_history st \<noteq> []
      then (if clear_button then (st\<lparr>prediction_history := []\<rparr>, True) else (st, False))
      else (st, False))"

text \<open>
  The body of \<^verbatim>\<open>if predict_button:\<close>. The time stamp is the formatted
  \<^verbatim>\<open>datetime.now()\<close>, an input of the model.
\<close>

definition predict_section ::
  "artifact_files \<Rightarrow> string \<Rightarrow> dataframe \<Rightarrow> real \<Rightarrow> session_state \<Rightarrow> session_state" where
  "predict_section files now input_df user_glucose st =
     (case load_models files of
        (Some model, Some scaler) \<Rightarrow>
          (case make_prediction model scaler input_df of
             Some (label, proba) \<Rightarrow>
               (let entry = \<lparr>data = input_df, prediction = label, probabilities = proba,
                              timestamp = now, glucose = user_glucose,
                              glucose_category = fst (analyze_glucose_level user_glucose)\<rparr>
                in st\<lparr>current_prediction := Some entry,
                      prediction_history := prediction_history st @ [entry]\<rparr>)
           | None \<Rightarrow> st)
      | _ \<Rightarrow> st)"

text \<open>One run of the script: what the user did, the files on disk and the clock.\<close>

record run_input =
  sliders :: slider_values
  predict_button :: bool
  clear_button :: bool
  files :: artifact_files
  now :: string

definition run_script :: "run_input \<Rightarrow> session_state \<Rightarrow> session_state" where
  "run_script inp st =
     (let input_df = get_user_input (sliders inp) in
      case clear_section (clear_button inp) st of
        (st', True) \<Rightarrow> st'
      | (st', False) \<Rightarrow>
          (case df_get input_df ''Glucose'' of
             Inl e \<Rightarrow> st'
           | Inr glucose_value \<Rightarrow>
               if predict_button inp
               then predict_section (files inp) (now inp) input_df glucose_value st'
               else st'))"

fun run_session :: "run_input list \<Rightarrow> session_state \<Rightarrow> session_state" where
  "run_session [] st = st"
| "run_session (inp # inps) st = run_session inps (run_script inp st)"

section \<open>History display\<close>

text \<open>\<^verbatim>\<open>xs[-n:]\<close> for \<open>n \<ge> 0\<close>; \<^verbatim>\<open>xs[-0:]\<close> is the whole list.\<close>

definition slice_last :: "nat \<Rightarrow> 'a list \<Rightarrow> 'a list" where
  "slice_last n xs = (if n = 0 then xs else drop (length xs - n) xs)"

text \<open>
  The entries the history section walks over:
  \<^verbatim>\<open>enumerate(reversed(prediction_history[-5:]), 1)\<close>, nothing when the history is
  empty.
\<close>

definition history_shown :: "history_entry list \<Rightarrow> (nat \<times> history_entry) list" where
  "history_shown h = (if h \<noteq> [] then enumerate 1 (rev (slice_last 5 h)) else [])"

text \<open>The status line of a shown entry (U+2705, and U+26A0 U+FE0F).\<close>

definition prediction_status :: "int \<Rightarrow> string" where
  "prediction_status p =
     (if p = 0 then ''Non-Diabetes '' @ [CHR 0xE2, CHR 0x9C, CHR 0x85]
      else ''Diabetes '' @ [CHR 0xE2, CHR 0x9A, CHR 0xA0, CHR 0xEF, CHR 0xB8, CHR 0x8F])"

section \<open>Properties of entries and of probability rows\<close>

text \<open>
  An entry is consistent when its stored glucose value is the \<^verbatim>\<open>Glucose\<close> cell of
  its stored frame and its stored category is the first component of the categorizer's
  result on that value.
\<close>

definition entry_consistent :: "history_entry \<Rightarrow> bool" where
  "entry_consistent e =
     (df_get (data e) ''Glucose'' = Inr (glucose e)
      \<and> glucose_category e = fst (analyze_glucose_level (glucose e)))"

text \<open>A row of two non-negative probabilities that sum to one up to one part in a million.\<close>

definition is_distribution :: "real list \<Rightarrow> bool" where
  "is_distribution p =
     (length p = 2 \<and> list_all (\<lambda>x. 0 \<le> x) p \<and> \<bar>sum_list p - 1\<bar> \<le> 1 / 10 ^ 6)"

section \<open>Test doubles\<close>

text \<open>
  Concrete inputs for the examples below: the slider defaults, a frame with two cells
  outside the declared ranges, a classifier that always answers label 0 with
  probabilities \<open>[0.8, 0.2]\<close>, one that thresholds the sum of the row at 200, a scaler
  that returns the row unchanged, one that halves it and one that raises.
\<close>

definition example_sliders :: slider_values where
  "example_sliders =
     \<lparr>pregnancies_input = 1, glucose_input = 120, blood_pressure_input = 70,
      skin_thickness_input = 20, insulin_input = 80, bmi_input = 25,
      diabetes_pedigree_input = 5 / 10, age_input = 30\<rparr>"


definition stub_model :: model_artifact where
  "stub_model = \<lparr>predict = (\<lambda>X. Inr [0]), predict_proba = (\<lambda>X. Inr [[8 / 10, 2 / 10]])\<rparr>"

definition threshold_model :: model_artifact where
  "threshold_model =
     \<lparr>predict = (\<lambda>X. Inr (map (\<lambda>row. if sum_list row < 200 then 0 else 1) X)),
      predict_proba =
        (\<lambda>X. Inr (map (\<lambda>row. if sum_list row < 200 then [8 / 10, 2 / 10]
                               else [2 / 10, 8 / 10]) X))\<rparr>"

definition stub_scaler :: scaler_artifact where
  "stub_scaler = \<lparr>transform = (\<lambda>df. Inr [map snd df])\<rparr>"

definition halving_scaler :: scaler_artifact where
  "halving_scaler = \<lparr>transform = (\<lambda>df. Inr [map (\<lambda>(k, v). v / 2) df])\<rparr>"

definition failing_scaler :: scaler_artifact where
  "failing_scaler = \<lparr>transform = (\<lambda>df. Inl (OtherException ''shape''))\<rparr>"

definition example_files :: artifact_files where
  "example_files =
     \<lparr>best_diabetes_model_pkl = Inr (Some stub_model), scaler_pkl = Inr (Some stub_scaler)\<rparr>"

definition example_run :: run_input where
  "example_run =
     \<lparr>sliders = example_sliders, predict_button = True, clear_button = False,
      files = example_files, now = ''2026-01-01 12:00:00''\<rparr>"

definition example_entry :: history_entry where
  "example_entry =
     \<lparr>data = [(''Pregnancies'', 1), (''Glucose'', 120), (''BloodPressure'', 70),
              (''SkinThickness'', 20), (''Insulin'', 80), (''BMI'', 25),
              (''DiabetesPedigreeFunction'', 5 / 10), (''Age'', 30)],
      prediction = 0, probabilities = [8 / 10, 2 / 10], timestamp = ''2026-01-01 12:00:00'',
      glucose = 120, glucose_category = ''Prediabetes (Puasa)''\<rparr>"

section \<open>Auxiliary facts\<close>

lemma first_item_simps [simp]:
  "first_item [] = Inl IndexError" "first_item (x # xs) = Inr x"
  by (simp_all add: first_item_def)

lemma df_get_glucose [simp]:
  "df_get (get_user_input w) ''Glucose'' = Inr (of_int (glucose_input w))"
  by (simp add: df_get_def get_user_input_def)

lemma make_prediction_Some_iff:
  "make_prediction model scaler df = Some (l, p) \<longleftrightarrow>
     (\<exists>X ls ps. transform scaler df = Inr X \<and> predict model X = Inr (l # ls)
        \<and> predict_proba model X = Inr (p # ps))"
  by (auto simp: make_prediction_def first_item_def split: sum.splits list.splits)

lemma make_prediction_raises:
  "isl (transform s df) \<or>
   (\<exists>X. transform s df = Inr X \<and> (isl (predict m X) \<or> isl (predict_proba m X)))
   \<Longrightarrow> make_prediction m s df = None"
  by (auto simp: make_prediction_def isl_def split: sum.splits)

lemma load_models_fails:
  "isl (best_diabetes_model_pkl fs) \<or> isl (scaler_pkl fs) \<Longrightarrow> load_models fs = (None, None)"
  by (auto simp: load_models_def isl_def split: sum.splits)

lemma load_models_ok:
  "best_diabetes_model_pkl fs = Inr m \<Longrightarrow> scaler_pkl fs = Inr s \<Longrightarrow> load_models fs = (m, s)"
  by (simp add: load_models_def)

lemma predict_section_cases:
  "predict_section fs t df g st = st
   \<or> (\<exists>l p. predict_section fs t df g st =
        st\<lparr>current_prediction :=
              Some \<lparr>data = df, prediction = l, probabilities = p, timestamp = t, glucose = g,
                    glucose_category = fst (analyze_glucose_level g)\<rparr>,
            prediction_history := prediction_history st @
              [\<lparr>data = df, prediction = l, probabilities = p, timestamp = t, glucose = g,
                glucose_category = fst (analyze_glucose_level g)\<rparr>]\<rparr>)"
  by (auto simp: predict_section_def Let_def split: prod.splits option.splits)

lemma predict_section_success:
  assumes "best_diabetes_model_pkl fs = Inr (Some model)" "scaler_pkl fs = Inr (Some scaler)"
    and "make_prediction model scaler df = Some (l, p)"
  shows "predict_section fs t df g st =
     st\<lparr>current_prediction :=
            Some \<lparr>data = df, prediction = l, probabilities = p, timestamp = t, glucose = g,
                  glucose_category = fst (analyze_glucose_level g)\<rparr>,
         prediction_history := prediction_history st @
            [\<lparr>data = df, prediction = l, probabilities = p, timestamp = t, glucose = g,
              glucose_category = fst (analyze_glucose_level g)\<rparr>]\<rparr>"
  using assms by (simp add: predict_section_def load_models_ok Let_def)

lemma run_script_cases:
  "run_script inp st = st
   \<or> (clear_button inp \<and> run_script inp st = st\<lparr>prediction_history := []\<rparr>)
   \<or> (predict_button inp \<and> run_script inp st =
        predict_section (files inp) (now inp) (get_user_input (sliders inp))
          (of_int (glucose_input (sliders inp))) st)"
  by (auto simp: run_script_def clear_section_def Let_def)

lemma run_script_predict:
  "\<not> clear_button inp \<Longrightarrow> predict_button inp \<Longrightarrow>
   run_script inp st =
     predict_section (files inp) (now inp) (get_user_input (sliders inp))
       (of_int (glucose_input (sliders inp))) st"
  by (simp add: run_script_def clear_section_def Let_def)

lemma slice_last_rev: "0 < n \<Longrightarrow> rev (slice_last n xs) = take n (rev xs)"
  by (simp add: slice_last_def take_rev)

lemma run_script_prefix:
  "\<not> clear_button inp \<Longrightarrow> prefix (prediction_history st) (prediction_history (run_script inp st))"
  using run_script_cases [of inp st]
    predict_section_cases [of "files inp" "now inp" "get_user_input (sliders inp)"
      "of_int (glucose_input (sliders inp))" st]
  by auto

lemma run_session_prefix:
  "\<forall>inp \<in> set inps. \<not> clear_button inp \<Longrightarrow>
     prefix (prediction_history st) (prediction_history (run_session inps st))"
proof (induction inps arbitrary: st)
  case Nil
  then show ?case by simp
next
  case (Cons inp inps)
  have "prefix (prediction_history st) (prediction_history (run_script inp st))"
    using Cons.prems by (simp add: run_script_prefix)
  moreover have "prefix (prediction_history (run_script inp st))
      (prediction_history (run_session inps (run_script inp st)))"
    using Cons by simp
  ultimately show ?case by (auto intro: prefix_order.trans)
qed

lemma predict_section_consistent:
  assumes "\<forall>e \<in> set (prediction_history st). entry_consistent e"
    and "df_get df ''Glucose'' = Inr g"
  shows "\<forall>e \<in> set (prediction_history (predict_section fs t df g st)). entry_consistent e"
  using predict_section_cases [of fs t df g st] assms
  by (auto simp: entry_consistent_def)

lemma run_script_consistent:
  assumes "\<forall>e \<in> set (prediction_history st). entry_consistent e"
  shows "\<forall>e \<in> set (prediction_history (run_script inp st)). entry_consistent e"
  using run_script_cases [of inp st] assms
    predict_section_consistent [OF assms df_get_glucose, of "files inp" "now inp" "sliders inp"]
  by auto

lemma run_session_consistent:
  "\<forall>e \<in> set (prediction_history st). entry_consistent e \<Longrightarrow>
   \<forall>e \<in> set (prediction_history (run_session inps st)). entry_consistent e"
proof (induction inps arbitrary: st)
  case Nil
  then show ?case by simp
next
  case (Cons inp inps)
  show ?case
    using Cons.IH [OF run_script_consistent [OF Cons.prems]] by simp
qed

text \<open>The test doubles at work.\<close>

lemma example_run_sel:
  "sliders example_run = example_sliders" "predict_button example_run"
  "\<not> clear_button example_run" "files example_run = example_files"
  "now example_run = ''2026-01-01 12:00:00''"
  by (simp_all add: example_run_def)

lemma example_sliders_sel:
  "pregnancies_input example_sliders = 1" "glucose_input example_sliders = 120"
  "blood_pressure_input example_sliders = 70" "skin_thickness_input example_sliders = 20"
  "insulin_input example_sliders = 80" "bmi_input example_sliders = 25"
  "diabetes_pedigree_input example_sliders = 5 / 10" "age_input example_sliders = 30"
  by (simp_all add: example_sliders_def)

lemma stub_prediction:
  "make_prediction stub_model stub_scaler df = Some (0, [8 / 10, 2 / 10])"
  by (simp add: make_prediction_def stub_model_def stub_scaler_def)

lemma example_frame:
  "get_user_input example_sliders =
     [(''Pregnancies'', 1), (''Glucose'', 120), (''BloodPressure'', 70),
      (''SkinThickness'', 20), (''Insulin'', 80), (''BMI'', 25),
      (''DiabetesPedigreeFunction'', 5 / 10), (''Age'', 30)]"
  by (simp add: get_user_input_def example_sliders_def)

lemma example_run_appends:
  "run_script example_run st =
     st\<lparr>current_prediction := Some example_entry,
        prediction_history := prediction_history st @ [example_entry]\<rparr>"
proof -
  have "run_script example_run st =
      predict_section example_files ''2026-01-01 12:00:00'' (get_user_input example_sliders)
        120 st"
    by (simp add: run_script_predict example_run_def example_sliders_def)
  also have "\<dots> = st\<lparr>current_prediction :=
            Some \<lparr>data = get_user_input example_sliders, prediction = 0,
                  probabilities = [8 / 10, 2 / 10], timestamp = ''2026-01-01 12:00:00'',
                  glucose = 120, glucose_category = fst (analyze_glucose_level 120)\<rparr>,
         prediction_history := prediction_history st @
            [\<lparr>data = get_user_input example_sliders, prediction = 0,
              probabilities = [8 / 10, 2 / 10], timestamp = ''2026-01-01 12:00:00'',
              glucose = 120, glucose_category = fst (analyze_glucose_level 120)\<rparr>]\<rparr>"
    by (rule predict_section_success [OF _ _ stub_prediction])
      (simp_all add: example_files_def)
  finally show ?thesis
    by (simp add: example_frame example_entry_def analyze_glucose_level_def)
qed

section \<open>Properties\<close>

text \<open>
  C1. For every reading \<open>g\<close> the categorizer returns the five-band classification of
  the first matching half-open interval: below 100 the fasting Normal band with low
  risk (\<^verbatim>\<open>Rendah\<close>), from 100 up to 126 fasting Prediabetes with medium risk
  (\<^verbatim>\<open>Sedang\<close>), from 126 up to 140 fasting Diabetes with high risk
  (\<^verbatim>\<open>Tinggi\<close>), from 140 up to 200 two-hour Prediabetes with medium risk, and from
  200 on two-hour Diabetes with high risk. The reading 199.999 is in the Prediabetes
  band and the reading 200 in the Diabetes band.
\<close>

theorem analyze_glucose_level_bands:
  "(g < 100 \<longrightarrow> analyze_glucose_level g = (''Normal (Puasa)'', ''green'', ''Rendah''))
   \<and> (100 \<le> g \<and> g < 126 \<longrightarrow>
        analyze_glucose_level g = (''Prediabetes (Puasa)'', ''orange'', ''Sedang''))
   \<and> (126 \<le> g \<and> g < 140 \<longrightarrow>
        analyze_glucose_level g = (''Diabetes (Puasa)'', ''red'', ''Tinggi''))
   \<and> (140 \<le> g \<and> g < 200 \<longrightarrow>
        analyze_glucose_level g = (''Prediabetes (2 jam)'', ''orange'', ''Sedang''))
   \<and> (200 \<le> g \<longrightarrow> analyze_glucose_level g = (''Diabetes (2 jam)'', ''red'', ''Tinggi''))
   \<and> analyze_glucose_level (199999 / 1000) = (''Prediabetes (2 jam)'', ''orange'', ''Sedang'')
   \<and> analyze_glucose_level 200 = (''Diabetes (2 jam)'', ''red'', ''Tinggi'')"
  by (simp add: analyze_glucose_level_def)

theorem analyze_glucose_level_bands_witness:
  "(112::real) < 126 \<and> (100::real) \<le> 112
   \<and> analyze_glucose_level 112 = (''Prediabetes (Puasa)'', ''orange'', ''Sedang'')
   \<and> analyze_glucose_level 50 = (''Normal (Puasa)'', ''green'', ''Rendah'')
   \<and> analyze_glucose_level 130 = (''Diabetes (Puasa)'', ''red'', ''Tinggi'')
   \<and> analyze_glucose_level 150 = (''Prediabetes (2 jam)'', ''orange'', ''Sedang'')
   \<and> analyze_glucose_level 400 = (''Diabetes (2 jam)'', ''red'', ''Tinggi'')"
  using analyze_glucose_level_bands [of 112] analyze_glucose_level_bands [of 50]
    analyze_glucose_level_bands [of 130] analyze_glucose_level_bands [of 150]
    analyze_glucose_level_bands [of 400]
  by simp




text \<open>
  C3, as the code has it. For the readings Pregnancies 1, Glucose 120, BloodPressure 70,
  SkinThickness 20, Insulin 80, BMI 25.0, DiabetesPedigreeFunction 0.5 and Age 30, a
  classifier double answering label 0 and probabilities \<open>[0.8, 0.2]\<close>, and any scaler that
  returns without raising, a submission in a fresh session leaves exactly one history
  entry: its glucose category is \<^verbatim>\<open>Prediabetes (Puasa)\<close>, its label is 0 (shown as
  Non-Diabetes) and its probabilities are exactly \<open>[0.8, 0.2]\<close>. The entry stores no risk
  tier; the categorizer's tier for 120 is \<^verbatim>\<open>Sedang\<close> (medium).
\<close>

theorem end_to_end_example:
  assumes "transform scaler (get_user_input example_sliders) = Inr X"
  shows "run_script \<lparr>sliders = example_sliders, predict_button = True, clear_button = False,
           files = \<lparr>best_diabetes_model_pkl = Inr (Some stub_model),
                    scaler_pkl = Inr (Some scaler)\<rparr>, now = t\<rparr> init_session
         = \<lparr>prediction_history =
              [\<lparr>data = [(''Pregnancies'', 1), (''Glucose'', 120), (''BloodPressure'', 70),
                        (''SkinThickness'', 20), (''Insulin'', 80), (''BMI'', 25),
                        (''DiabetesPedigreeFunction'', 5 / 10), (''Age'', 30)],
                prediction = 0, probabilities = [8 / 10, 2 / 10], timestamp = t, glucose = 120,
                glucose_category = ''Prediabetes (Puasa)''\<rparr>],
            current_prediction =
              Some \<lparr>data = [(''Pregnancies'', 1), (''Glucose'', 120), (''BloodPressure'', 70),
                        (''SkinThickness'', 20), (''Insulin'', 80), (''BMI'', 25),
                        (''DiabetesPedigreeFunction'', 5 / 10), (''Age'', 30)],
                prediction = 0, probabilities = [8 / 10, 2 / 10], timestamp = t, glucose = 120,
                glucose_category = ''Prediabetes (Puasa)''\<rparr>\<rparr>
     \<and> analyze_glucose_level 120 = (''Prediabetes (Puasa)'', ''orange'', ''Sedang'')
     \<and> prediction_status 0 = ''Non-Diabetes '' @ [CHR 0xE2, CHR 0x9C, CHR 0x85]"
proof -
  have mp: "make_prediction stub_model scaler (get_user_input example_sliders)
      = Some (0, [8 / 10, 2 / 10])"
    using assms by (simp add: make_prediction_def stub_model_def)
  have g: "glucose_input example_sliders = 120"
    by (simp add: example_sliders_def)
  have cat: "analyze_glucose_level 120 = (''Prediabetes (Puasa)'', ''orange'', ''Sedang'')"
    by (simp add: analyze_glucose_level_def)
  have "run_script \<lparr>sliders = example_sliders, predict_button = True, clear_button = False,
           files = \<lparr>best_diabetes_model_pkl = Inr (Some stub_model),
                    scaler_pkl = Inr (Some scaler)\<rparr>, now = t\<rparr> init_session
      = predict_section \<lparr>best_diabetes_model_pkl = Inr (Some stub_model),
                    scaler_pkl = Inr (Some scaler)\<rparr> t (get_user_input example_sliders) 120
          init_session"
    by (simp add: run_script_predict g)
  also have "\<dots> = init_session\<lparr>current_prediction :=
            Some \<lparr>data = get_user_input example_sliders, prediction = 0,
                  probabilities = [8 / 10, 2 / 10], timestamp = t, glucose = 120,
                  glucose_category = fst (analyze_glucose_level 120)\<rparr>,
         prediction_history := prediction_history init_session @
            [\<lparr>data = get_user_input example_sliders, prediction = 0,
              probabilities = [8 / 10, 2 / 10], timestamp = t, glucose = 120,
              glucose_category = fst (analyze_glucose_level 120)\<rparr>]\<rparr>"
    by (rule predict_section_success [OF _ _ mp]) simp_all
  finally show ?thesis
    by (simp add: example_frame cat init_session_def prediction_status_def)
qed

theorem end_to_end_example_witness:
  "map glucose_category (prediction_history (run_script example_run init_session))
     = [''Prediabetes (Puasa)'']
   \<and> map prediction (prediction_history (run_script example_run init_session)) = [0]
   \<and> map probabilities (prediction_history (run_script example_run init_session))
     = [[8 / 10, 2 / 10]]"
  using end_to_end_example [of stub_scaler "[map snd (get_user_input example_sliders)]"
      "''2026-01-01 12:00:00''"]
  by (simp add: stub_scaler_def example_run_def example_files_def)

text \<open>
  C3, as the specification states it, fails: the entry's category is not
  \<^verbatim>\<open>Normal (2 jam)\<close> and the categorizer's risk tier for 120 is not \<^verbatim>\<open>Rendah\<close> (low).
\<close>

theorem end_to_end_category_not_normal:
  "map glucose_category (prediction_history (run_script example_run init_session))
     \<noteq> [''Normal (2 jam)'']
   \<and> snd (snd (analyze_glucose_level 120)) \<noteq> ''Rendah''"
  by (simp add: stub_prediction run_script_def
      clear_section_def init_session_def example_run_def example_files_def
      predict_section_def load_models_def Let_def analyze_glucose_level_def example_sliders_def)

text \<open>
  C4. The frame built from the sliders has its eight columns in the order Pregnancies,
  Glucose, BloodPressure, SkinThickness, Insulin, BMI, DiabetesPedigreeFunction, Age, each
  holding the reading of its slider. A script run with the predict button pressed hands
  exactly that frame, in that order, to the scaler's transform first, and the classifier's
  label and probability computations receive the scaler's output: when the transform
  raises no classifier result is used and the state stays as it was, otherwise the entry
  appended carries the first label and the first probability row the classifier gives on
  the scaled array. Two classifiers that agree on the scaled array give the same
  prediction, whatever they do on the unscaled readings.
\<close>

theorem prediction_on_scaled_vector:
  "map fst (get_user_input w) =
     [''Pregnancies'', ''Glucose'', ''BloodPressure'', ''SkinThickness'', ''Insulin'', ''BMI'',
      ''DiabetesPedigreeFunction'', ''Age'']
   \<and> map snd (get_user_input w) =
     [of_int (pregnancies_input w), of_int (glucose_input w), of_int (blood_pressure_input w),
      of_int (skin_thickness_input w), of_int (insulin_input w), bmi_input w,
      diabetes_pedigree_input w, of_int (age_input w)]
   \<and> make_prediction model scaler df =
       (case transform scaler df of
          Inl e \<Rightarrow> None
        | Inr input_scaled \<Rightarrow>
            (case (predict model input_scaled, predict_proba model input_scaled) of
               (Inr (l # ls), Inr (p # ps)) \<Rightarrow> Some (l, p)
             | _ \<Rightarrow> None))
   \<and> ((\<forall>input_scaled. transform scaler df = Inr input_scaled \<longrightarrow>
          predict model' input_scaled = predict model input_scaled
          \<and> predict_proba model' input_scaled = predict_proba model input_scaled)
        \<longrightarrow> make_prediction model' scaler df = make_prediction model scaler df)
   \<and> (predict_button inp \<and> \<not> clear_button inp
        \<and> best_diabetes_model_pkl (files inp) = Inr (Some model)
        \<and> scaler_pkl (files inp) = Inr (Some scaler) \<longrightarrow>
        run_script inp st =
          (case transform scaler
                  [(''Pregnancies'', of_int (pregnancies_input (sliders inp))),
                   (''Glucose'', of_int (glucose_input (sliders inp))),
                   (''BloodPressure'', of_int (blood_pressure_input (sliders inp))),
                   (''SkinThickness'', of_int (skin_thickness_input (sliders inp))),
                   (''Insulin'', of_int (insulin_input (sliders inp))),
                   (''BMI'', bmi_input (sliders inp)),
                   (''DiabetesPedigreeFunction'', diabetes_pedigree_input (sliders inp)),
                   (''Age'', of_int (age_input (sliders inp)))] of
             Inl e \<Rightarrow> st
           | Inr input_scaled \<Rightarrow>
               (case (predict model input_scaled, predict_proba model input_scaled) of
                  (Inr (l # ls), Inr (p # ps)) \<Rightarrow>
                    st\<lparr>current_prediction :=
                          Some \<lparr>data = get_user_input (sliders inp), prediction = l,
                                probabilities = p, timestamp = now inp,
                                glucose = of_int (glucose_input (sliders inp)),
                                glucose_category = fst (analyze_glucose_level
                                  (of_int (glucose_input (sliders inp))))\<rparr>,
                       prediction_history := prediction_history st @
                          [\<lparr>data = get_user_input (sliders inp), prediction = l,
                            probabilities = p, timestamp = now inp,
                            glucose = of_int (glucose_input (sliders inp)),
                            glucose_category = fst (analyze_glucose_level
                              (of_int (glucose_input (sliders inp))))\<rparr>]\<rparr>
                | _ \<Rightarrow> st)))"
proof -
  have frame: "map fst (get_user_input w) =
     [''Pregnancies'', ''Glucose'', ''BloodPressure'', ''SkinThickness'', ''Insulin'', ''BMI'',
      ''DiabetesPedigreeFunction'', ''Age'']
   \<and> map snd (get_user_input w) =
     [of_int (pregnancies_input w), of_int (glucose_input w), of_int (blood_pressure_input w),
      of_int (skin_thickness_input w), of_int (insulin_input w), bmi_input w,
      diabetes_pedigree_input w, of_int (age_input w)]"
    by (simp add: get_user_input_def)
  have mp: "make_prediction model scaler df =
       (case transform scaler df of
          Inl e \<Rightarrow> None
        | Inr input_scaled \<Rightarrow>
            (case (predict model input_scaled, predict_proba model input_scaled) of
               (Inr (l # ls), Inr (p # ps)) \<Rightarrow> Some (l, p)
             | _ \<Rightarrow> None))" for model df
    by (auto simp: make_prediction_def first_item_def split: sum.splits list.splits)
  have agree: "(\<forall>input_scaled. transform scaler df = Inr input_scaled \<longrightarrow>
          predict model' input_scaled = predict model input_scaled
          \<and> predict_proba model' input_scaled = predict_proba model input_scaled)
        \<longrightarrow> make_prediction model' scaler df = make_prediction model scaler df"
    by (auto simp: make_prediction_def split: sum.splits)
  have folded: "[(''Pregnancies'', of_int (pregnancies_input (sliders inp))),
       (''Glucose'', of_int (glucose_input (sliders inp))),
       (''BloodPressure'', of_int (blood_pressure_input (sliders inp))),
       (''SkinThickness'', of_int (skin_thickness_input (sliders inp))),
       (''Insulin'', of_int (insulin_input (sliders inp))),
       (''BMI'', bmi_input (sliders inp)),
       (''DiabetesPedigreeFunction'', diabetes_pedigree_input (sliders inp)),
       (''Age'', of_int (age_input (sliders inp)))]
      = get_user_input (sliders inp)"
    by (simp add: get_user_input_def)
  have link: "run_script inp st =
          (case transform scaler
                  [(''Pregnancies'', of_int (pregnancies_input (sliders inp))),
                   (''Glucose'', of_int (glucose_input (sliders inp))),
                   (''BloodPressure'', of_int (blood_pressure_input (sliders inp))),
                   (''SkinThickness'', of_int (skin_thickness_input (sliders inp))),
                   (''Insulin'', of_int (insulin_input (sliders inp))),
                   (''BMI'', bmi_input (sliders inp)),
                   (''DiabetesPedigreeFunction'', diabetes_pedigree_input (sliders inp)),
                   (''Age'', of_int (age_input (sliders inp)))] of
             Inl e \<Rightarrow> st
           | Inr input_scaled \<Rightarrow>
               (case (predict model input_scaled, predict_proba model input_scaled) of
                  (Inr (l # ls), Inr (p # ps)) \<Rightarrow>
                    st\<lparr>current_prediction :=
                          Some \<lparr>data = get_user_input (sliders inp), prediction = l,
                                probabilities = p, timestamp = now inp,
                                glucose = of_int (glucose_input (sliders inp)),
                                glucose_category = fst (analyze_glucose_level
                                  (of_int (glucose_input (sliders inp))))\<rparr>,
                       prediction_history := prediction_history st @
                          [\<lparr>data = get_user_input (sliders inp), prediction = l,
                            probabilities = p, timestamp = now inp,
                            glucose = of_int (glucose_input (sliders inp)),
                            glucose_category = fst (analyze_glucose_level
                              (of_int (glucose_input (sliders inp))))\<rparr>]\<rparr>
                | _ \<Rightarrow> st))"
    if "predict_button inp" "\<not> clear_button inp"
      "best_diabetes_model_pkl (files inp) = Inr (Some model)"
      "scaler_pkl (files inp) = Inr (Some scaler)"
    using that
    by (simp add: folded run_script_predict predict_section_def load_models_ok mp Let_def
        split: sum.splits list.splits)
  show ?thesis
    using frame mp [of model df] agree link by blast
qed

theorem prediction_on_scaled_vector_witness:
  "make_prediction threshold_model halving_scaler (get_user_input example_sliders)
     = Some (0, [8 / 10, 2 / 10])
   \<and> predict threshold_model [map snd (get_user_input example_sliders)] = Inr [1]
   \<and> make_prediction stub_model halving_scaler (get_user_input example_sliders)
     = make_prediction threshold_model halving_scaler (get_user_input example_sliders)
   \<and> map fst (get_user_input example_sliders) =
     [''Pregnancies'', ''Glucose'', ''BloodPressure'', ''SkinThickness'', ''Insulin'', ''BMI'',
      ''DiabetesPedigreeFunction'', ''Age'']
   \<and> map prediction (prediction_history
        (run_script (example_run\<lparr>files :=
            \<lparr>best_diabetes_model_pkl = Inr (Some threshold_model),
             scaler_pkl = Inr (Some halving_scaler)\<rparr>\<rparr>) init_session)) = [0]"
  using prediction_on_scaled_vector [of example_sliders threshold_model halving_scaler
      "get_user_input example_sliders" stub_model
      "example_run\<lparr>files :=
            \<lparr>best_diabetes_model_pkl = Inr (Some threshold_model),
             scaler_pkl = Inr (Some halving_scaler)\<rparr>\<rparr>" init_session]
  by (simp add: example_frame example_run_sel example_sliders_sel threshold_model_def
      halving_scaler_def stub_model_def init_session_def)

text \<open>
  C5. The feedback under the glucose slider is a second classification, of three bands,
  that uses the two-hour thresholds only: below 140 the status is Normal, from 140 up to
  200 Prediabetes, and from 200 on Diabetes, for every slider value \<open>g\<close>. It differs
  from the five-band categorizer: for every \<open>g\<close> from 126 up to 140 the sidebar status
  names Normal while the categorizer's category names Diabetes.
\<close>

theorem glucose_status_three_bands:
  "(g < 140 \<longrightarrow>
      glucose_status g = ([CHR 0xF0, CHR 0x9F, CHR 0x9F, CHR 0xA2] @ '' Normal'', ''glukosa-normal''))
   \<and> (140 \<le> g \<and> g < 200 \<longrightarrow>
      glucose_status g =
        ([CHR 0xF0, CHR 0x9F, CHR 0x9F, CHR 0xA1] @ '' Prediabetes'', ''glukosa-prediabetes''))
   \<and> (200 \<le> g \<longrightarrow>
      glucose_status g = ([CHR 0xF0, CHR 0x9F, CHR 0x94, CHR 0xB4] @ '' Diabetes'', ''glukosa-diabetes''))
   \<and> (126 \<le> g \<and> g < 140 \<longrightarrow>
      suffix ''Normal'' (fst (glucose_status g))
      \<and> prefix ''Diabetes'' (fst (analyze_glucose_level (of_int g)))
      \<and> fst (glucose_status g) \<noteq> fst (analyze_glucose_level (of_int g)))"
  by (simp add: glucose_status_def analyze_glucose_level_def suffix_def)

theorem glucose_status_three_bands_witness:
  "(126::int) \<le> 130 \<and> (130::int) < 140
   \<and> glucose_status 130 = ([CHR 0xF0, CHR 0x9F, CHR 0x9F, CHR 0xA2] @ '' Normal'', ''glukosa-normal'')
   \<and> prefix ''Diabetes'' (fst (analyze_glucose_level (of_int 130)))
   \<and> glucose_status 150 =
        ([CHR 0xF0, CHR 0x9F, CHR 0x9F, CHR 0xA1] @ '' Prediabetes'', ''glukosa-prediabetes'')
   \<and> glucose_status 200 = ([CHR 0xF0, CHR 0x9F, CHR 0x94, CHR 0xB4] @ '' Diabetes'', ''glukosa-diabetes'')"
  using glucose_status_three_bands [of 130] glucose_status_three_bands [of 150]
    glucose_status_three_bands [of 200]
  by simp

text \<open>
  C6. The history section shows the last five entries of the history at most, the most
  recent first, numbered from 1. After an append the single most recent entry is the one
  appended, and it is the first one shown. The stored history is never cut to five: over
  any sequence of script runs without a click on the clear button the history before is
  a prefix of the history after.
\<close>

theorem history_shown_recent:
  "map snd (history_shown h) = take 5 (rev h)
   \<and> map fst (history_shown h) = [1..<Suc (min 5 (length h))]
   \<and> length (history_shown h) \<le> 5
   \<and> rev (slice_last 1 (h @ [e])) = [e]
   \<and> take 1 (map snd (history_shown (h @ [e]))) = [e]
   \<and> ((\<forall>inp \<in> set inps. \<not> clear_button inp) \<longrightarrow>
        prefix (prediction_history st) (prediction_history (run_session inps st)))"
proof -
  have shown: "\<And>h. map snd (history_shown h) = take 5 (rev h)"
    by (simp add: history_shown_def slice_last_rev)
  have idx: "map fst (history_shown h) = [1..<Suc (min 5 (length h))]"
    by (simp add: history_shown_def slice_last_def enumerate_eq_zip min_def)
  have "length (map snd (history_shown h)) \<le> 5"
    by (simp add: shown)
  then have len: "length (history_shown h) \<le> 5"
    by simp
  have one: "rev (slice_last 1 (h @ [e])) = [e]"
    by (simp add: slice_last_def)
  have top: "take 1 (map snd (history_shown (h @ [e]))) = [e]"
    by (simp add: shown)
  show ?thesis
    using shown idx len one top run_session_prefix by blast
qed

theorem history_shown_recent_witness:
  "\<not> clear_button example_run
   \<and> length (prediction_history (run_session [example_run, example_run, example_run]
        (run_session [example_run, example_run, example_run] init_session))) = 6
   \<and> prefix (prediction_history (run_session [example_run, example_run, example_run] init_session))
        (prediction_history (run_session [example_run, example_run, example_run]
          (run_session [example_run, example_run, example_run] init_session)))
   \<and> length (history_shown (prediction_history
        (run_session [example_run, example_run, example_run]
          (run_session [example_run, example_run, example_run] init_session)))) \<le> 5
   \<and> map fst (history_shown (prediction_history
        (run_session [example_run, example_run, example_run]
          (run_session [example_run, example_run, example_run] init_session)))) = [1, 2, 3, 4, 5]"
  using history_shown_recent [of "prediction_history
        (run_session [example_run, example_run, example_run]
          (run_session [example_run, example_run, example_run] init_session))"
      example_entry "[example_run, example_run, example_run]"
      "run_session [example_run, example_run, example_run] init_session"]
  by (simp add: example_run_appends init_session_def example_run_sel upt_rec)

text \<open>
  C7. A click on the clear button empties the history whatever the state: after the
  clear section has run with the button pressed the history holds no entry, so the five
  most recent entries are none and the history section shows nothing. The same holds
  for the whole script run of a click on the clear button.
\<close>

theorem clear_empties_history:
  "prediction_history (fst (clear_section True st)) = []
   \<and> history_shown (prediction_history (fst (clear_section True st))) = []
   \<and> rev (slice_last 5 (prediction_history (fst (clear_section True st)))) = []
   \<and> (clear_button inp \<and> \<not> predict_button inp \<longrightarrow>
        prediction_history (run_script inp st) = []
        \<and> history_shown (prediction_history (run_script inp st)) = [])"
  by (auto simp: clear_section_def history_shown_def slice_last_def run_script_def Let_def
      split: sum.splits)

theorem clear_empties_history_witness:
  "clear_button (example_run\<lparr>predict_button := False, clear_button := True\<rparr>)
   \<and> \<not> predict_button (example_run\<lparr>predict_button := False, clear_button := True\<rparr>)
   \<and> prediction_history (run_script example_run init_session) = [example_entry]
   \<and> prediction_history (run_script (example_run\<lparr>predict_button := False, clear_button := True\<rparr>)
        (run_script example_run init_session)) = []"
  using clear_empties_history [of "run_script example_run init_session"
      "example_run\<lparr>predict_button := False, clear_button := True\<rparr>"]
  by (simp add: example_run_appends init_session_def)

text \<open>
  C8. The classifier artifact is, by its interface, one whose \<^verbatim>\<open>predict_proba\<close>
  returns rows that are distributions over the two classes (index 0 Non-Diabetes, index
  1 Diabetes): two non-negative entries summing to one up to one part in a million. For
  every such classifier the probabilities of a successful prediction are two non-negative
  entries summing to one within that tolerance, since they are the first row of what
  \<^verbatim>\<open>predict_proba\<close> returned on the scaled input, handed on unchanged.
\<close>

theorem probabilities_from_model:
  assumes "make_prediction model scaler df = Some (l, p)"
  shows "(\<exists>X ps. transform scaler df = Inr X \<and> predict_proba model X = Inr (p # ps))
     \<and> ((\<forall>X rows. predict_proba model X = Inr rows \<longrightarrow> list_all is_distribution rows)
          \<longrightarrow> is_distribution p)"
proof -
  from assms obtain X ls ps where X: "transform scaler df = Inr X"
      "predict_proba model X = Inr (p # ps)"
    using make_prediction_Some_iff by blast
  then show ?thesis by fastforce
qed

theorem probabilities_from_model_witness:
  "make_prediction stub_model stub_scaler (get_user_input example_sliders)
      = Some (0, [8 / 10, 2 / 10])
   \<and> predict_proba stub_model [map snd (get_user_input example_sliders)]
      = Inr [[8 / 10, 2 / 10]]
   \<and> is_distribution [8 / 10, 2 / 10]"
proof -
  have mp: "make_prediction stub_model stub_scaler (get_user_input example_sliders)
      = Some (0, [8 / 10, 2 / 10])"
    by (simp add: make_prediction_def stub_model_def stub_scaler_def)
  have contract: "\<forall>X rows. predict_proba stub_model X = Inr rows \<longrightarrow>
      list_all is_distribution rows"
    by (auto simp: stub_model_def is_distribution_def)
  show ?thesis
    using probabilities_from_model [OF mp] contract mp by (simp add: stub_model_def)
qed

text \<open>
  C9. When loading the classifier or the scaler fails, or the scaler's transform or one
  of the classifier's two calls raises, the prediction section leaves the session state
  as it was: no entry is appended and the current prediction is unchanged. So does the
  whole script run of such a submission.
\<close>

theorem failed_submission_keeps_state:
  assumes "isl (best_diabetes_model_pkl fs) \<or> isl (scaler_pkl fs)
     \<or> (\<exists>m s. best_diabetes_model_pkl fs = Inr (Some m) \<and> scaler_pkl fs = Inr (Some s)
          \<and> (isl (transform s df)
              \<or> (\<exists>X. transform s df = Inr X \<and> (isl (predict m X) \<or> isl (predict_proba m X)))))"
  shows "predict_section fs t df g st = st
     \<and> (files inp = fs \<and> get_user_input (sliders inp) = df \<and> \<not> clear_button inp \<longrightarrow>
          run_script inp st = st)"
proof -
  from assms consider
    (load) "load_models fs = (None, None)"
    | (raise) m s where "load_models fs = (Some m, Some s)" "make_prediction m s df = None"
    using load_models_fails [of fs] load_models_ok [of fs] make_prediction_raises by blast
  then have keep: "predict_section fs t' df g' st = st" for t' g'
    by cases (simp_all add: predict_section_def)
  then show ?thesis
    by (auto simp: run_script_def clear_section_def Let_def)
qed

theorem failed_submission_keeps_state_witness:
  "isl (best_diabetes_model_pkl (example_files\<lparr>best_diabetes_model_pkl := Inl FileNotFoundError\<rparr>))
   \<and> predict_button (example_run\<lparr>files := example_files\<lparr>best_diabetes_model_pkl := Inl FileNotFoundError\<rparr>\<rparr>)
   \<and> run_script (example_run\<lparr>files := example_files\<lparr>best_diabetes_model_pkl := Inl FileNotFoundError\<rparr>\<rparr>)
        (run_script example_run init_session) = run_script example_run init_session
   \<and> isl (transform failing_scaler (get_user_input example_sliders))
   \<and> run_script (example_run\<lparr>files := example_files\<lparr>scaler_pkl := Inr (Some failing_scaler)\<rparr>\<rparr>)
        (run_script example_run init_session) = run_script example_run init_session
   \<and> prediction_history (run_script example_run init_session) = [example_entry]"
  using failed_submission_keeps_state [of
      "example_files\<lparr>best_diabetes_model_pkl := Inl FileNotFoundError\<rparr>"
      "get_user_input example_sliders" "''2026-01-01 12:00:00''" 120
      "run_script example_run init_session"
      "example_run\<lparr>files := example_files\<lparr>best_diabetes_model_pkl := Inl FileNotFoundError\<rparr>\<rparr>"]
    failed_submission_keeps_state [of
      "example_files\<lparr>scaler_pkl := Inr (Some failing_scaler)\<rparr>"
      "get_user_input example_sliders" "''2026-01-01 12:00:00''" 120
      "run_script example_run init_session"
      "example_run\<lparr>files := example_files\<lparr>scaler_pkl := Inr (Some failing_scaler)\<rparr>\<rparr>"]
  by (simp add: example_run_appends init_session_def example_run_sel example_files_def
      failing_scaler_def)

text \<open>
  C10. Every script run preserves the invariant that each history entry stores the
  \<^verbatim>\<open>Glucose\<close> cell of its stored frame as its glucose value and the categorizer's
  category of that value as its glucose category; hence the invariant holds in every
  state a session reaches from the initial one.
\<close>

theorem history_entries_consistent:
  "((\<forall>e \<in> set (prediction_history st). entry_consistent e) \<longrightarrow>
      (\<forall>e \<in> set (prediction_history (run_script inp st)). entry_consistent e))
   \<and> (\<forall>e \<in> set (prediction_history (run_session inps init_session)). entry_consistent e)"
  using run_script_consistent [of st inp] run_session_consistent [of init_session inps]
  by (simp add: init_session_def)

theorem history_entries_consistent_witness:
  "prediction_history (run_session [example_run, example_run] init_session)
     = [example_entry, example_entry]
   \<and> example_entry \<in> set (prediction_history (run_session [example_run, example_run] init_session))
   \<and> entry_consistent example_entry
   \<and> df_get (data example_entry) ''Glucose'' = Inr 120"
  using history_entries_consistent [of init_session example_run "[example_run, example_run]"]
  by (simp add: example_run_appends init_session_def example_entry_def df_get_def)

end
